theory Spec2Isabelle
  imports Complex_Main "HOL-Library.AList"
begin

section \<open>JavaScript values\<close>

text \<open>
  The state tree, the configuration options and the parsed JSON texts are JavaScript
  values. A number is a double: the model keeps a finite one as a rational (the doubles
  are rationals, and \<open>-0\<close> is \<open>0\<close>), and has \<open>NaN\<close> and the two infinities beside it.

  \<open>undefined\<close> is not a \<open>jsval\<close>: an expression that may be \<open>undefined\<close> has the type
  \<open>jsval option\<close>, and \<open>None\<close> is \<open>undefined\<close> (also an argument or an option that was
  left out, which JavaScript does not tell apart from \<open>undefined\<close>).

  An object is the list of its own enumerable properties in enumeration order, and a
  lookup of an own property reads the list as a map (\<open>map_of\<close>). These are the values of
  the state tree, of the options and of the stored texts: plain data. What a value
  inherits from its prototype (\<open>constructor\<close>, \<open>toString\<close>, the methods of arrays,
  strings and numbers) are objects and functions of the host; a property read can meet
  them, so the walk of \<open>lensPath\<close> goes over references, which are a plain value or a
  built-in of the host, named by a number.
\<close>

datatype jsnum = Finite rat | NaN | PosInfinity | NegInfinity

datatype jsval =
    JNull
  | JBool bool
  | JNum jsnum
  | JStr string
  | JArr "jsval list"
  | JObj "(string \<times> jsval) list"

text \<open>The exceptions the code can raise: a property read on \<open>null\<close>, a method call on a
  value that has no such method, and \<open>JSON.parse\<close> on a text that is not JSON.\<close>

datatype error = TypeError | SyntaxError

datatype ref = Plain jsval | Host nat

text \<open>The truth value of a condition \<open>if (v)\<close>.\<close>

fun truthy :: "jsval option \<Rightarrow> bool" where
  "truthy None = False"
| "truthy (Some JNull) = False"
| "truthy (Some (JBool b)) = b"
| "truthy (Some (JNum (Finite r))) = (r \<noteq> 0)"
| "truthy (Some (JNum NaN)) = False"
| "truthy (Some (JNum PosInfinity)) = True"
| "truthy (Some (JNum NegInfinity)) = True"
| "truthy (Some (JStr s)) = (s \<noteq> [])"
| "truthy (Some (JArr xs)) = True"
| "truthy (Some (JObj kvs)) = True"

text \<open>A built-in of the host is an object or a function, which counts as true.\<close>

fun truthy_ref :: "ref option \<Rightarrow> bool" where
  "truthy_ref None = False"
| "truthy_ref (Some (Plain v)) = truthy (Some v)"
| "truthy_ref (Some (Host h)) = True"

text \<open>The decimal name of an array index, as \<open>for ... in\<close> yields it and as a property
  key has to spell it.\<close>

fun index_string :: "nat \<Rightarrow> string" where
  "index_string n =
     (if n < 10 then [''0123456789'' ! n]
      else index_string (n div 10) @ [''0123456789'' ! (n mod 10)])"

declare index_string.simps [simp del]

definition element_at :: "'a list \<Rightarrow> string \<Rightarrow> 'a option" where
  "element_at xs k =
     map_option (\<lambda>i. xs ! i) (find (\<lambda>i. index_string i = k) [0..<length xs])"

text \<open>
  The built-ins of the language that the model takes as given: \<open>JSON.stringify\<close> on plain
  data (a string for every value of the model), \<open>JSON.parse\<close> (\<open>None\<close> when it raises a
  SyntaxError), the conversion to a string that \<open>+\<close> applies to an operand that is not a
  string; what the prototype chain of a plain value other than \<open>null\<close> gives for a key that
  is not an own property of it (\<open>None\<close> for nothing, an exception when a getter raises),
  what a property read on a built-in gives, and the text that the store receives for
  \<open>JSON.stringify\<close> of a built-in (the text \<open>undefined\<close> for a function).
\<close>

record builtins =
  JSON_stringify :: "jsval \<Rightarrow> string"
  JSON_parse :: "string \<Rightarrow> jsval option"
  ToString :: "jsval \<Rightarrow> string"
  inherited :: "jsval \<Rightarrow> string \<Rightarrow> error + ref option"
  host_get :: "nat \<Rightarrow> string \<Rightarrow> error + ref option"
  host_stringify :: "nat \<Rightarrow> string"

text \<open>The own property \<open>k\<close> of a plain value: a property of an object, an element or the
  length of an array, a character or the length of a string.\<close>

fun own_lookup :: "jsval \<Rightarrow> string \<Rightarrow> jsval option" where
  "own_lookup (JStr s) k =
     (if k = ''length'' then Some (JNum (Finite (of_nat (length s))))
      else map_option (\<lambda>c. JStr [c]) (element_at s k))"
| "own_lookup (JArr xs) k =
     (if k = ''length'' then Some (JNum (Finite (of_nat (length xs))))
      else element_at xs k)"
| "own_lookup (JObj kvs) k = map_of kvs k"
| "own_lookup v k = None"

text \<open>\<open>obj[k]\<close> for an \<open>obj\<close> that is not \<open>undefined\<close>: reading a property of \<open>null\<close>
  raises a TypeError; an own property comes first, then the prototype chain; a property
  that is nowhere reads as \<open>undefined\<close>.\<close>

fun get_prop :: "builtins \<Rightarrow> ref \<Rightarrow> string \<Rightarrow> error + ref option" where
  "get_prop B (Plain JNull) k = Inl TypeError"
| "get_prop B (Plain v) k =
     (case own_lookup v k of
        Some x \<Rightarrow> Inr (Some (Plain x))
      | None \<Rightarrow> inherited B v k)"
| "get_prop B (Host h) k = host_get B h k"

section \<open>lensPath\<close>

text \<open>
  \<^verbatim>\<open>
  function lensPath (path, obj) {
    if (obj === undefined) { return null }
    else if (path.length === 1) { return obj[path[0]] }
    else { return lensPath(path.slice(1), obj[path[0]]) }
  }
  \<close>
  The module calls \<open>lensPath\<close> on the result of a \<open>split\<close> and on \<open>[state]\<close>, which are
  not empty, and the recursion keeps the path so. On the empty path \<open>path[0]\<close> is
  \<open>undefined\<close>, which as a property key is the string \<open>undefined\<close>, and \<open>path.slice(1)\<close>
  is empty again: the last two equations, where no prototype and no built-in has a
  property of that name, so that only an own property can be found.
\<close>

function lensPath :: "builtins \<Rightarrow> string list \<Rightarrow> ref option \<Rightarrow> error + ref option" where
  "lensPath B path None = Inr (Some (Plain JNull))"
| "lensPath B [k] (Some obj) = get_prop B obj k"
| "lensPath B (k # k' # rest) (Some obj) =
     (case get_prop B obj k of Inl e \<Rightarrow> Inl e | Inr v \<Rightarrow> lensPath B (k' # rest) v)"
| "lensPath B [] (Some (Plain obj)) =
     (if obj = JNull then Inl TypeError
      else lensPath B [] (map_option Plain (own_lookup obj ''undefined'')))"
| "lensPath B [] (Some (Host h)) = Inr (Some (Plain JNull))"
  by pat_completeness auto
termination
proof (relation "inv_image (less_than <*lex*> less_than)
    (\<lambda>(B, path, obj).
       (length path, case obj of Some (Plain v) \<Rightarrow> Suc (size v) | _ \<Rightarrow> 0))")
  fix obj :: jsval
  have digit: "''0123456789'' ! d \<noteq> CHR ''d''" if "d < 10" for d :: nat
  proof -
    from that have "d \<in> {0, 1, 2, 3, 4, 5, 6, 7, 8, 9}" by auto
    then show ?thesis by auto
  qed
  have index: "index_string n \<noteq> ''undefined''" for n
  proof
    assume "index_string n = ''undefined''"
    then have "last (index_string n) = CHR ''d''" by simp
    moreover have "last (index_string n) = ''0123456789'' ! (n mod 10)"
      by (subst index_string.simps) simp
    ultimately show False using digit [of "n mod 10"] by simp
  qed
  have no_char: "element_at (s :: string) ''undefined'' = None" for s
    by (simp add: element_at_def find_None_iff index)
  have no_element: "element_at (xs :: jsval list) ''undefined'' = None" for xs
    by (simp add: element_at_def find_None_iff index)
  have smaller: "size u < size (JObj kvs)" if "map_of kvs k = Some u" for kvs k u
    using that by (induction kvs) (auto split: if_splits)
  have "size u < size obj" if "own_lookup obj ''undefined'' = Some u" for u
    using that by (cases obj) (auto simp: no_char no_element dest: smaller)
  then show "((B, [], map_option Plain (own_lookup obj ''undefined'')), (B, [], Some (Plain obj)))
      \<in> inv_image (less_than <*lex*> less_than)
          (\<lambda>(B, path, obj).
             (length path, case obj of Some (Plain v) \<Rightarrow> Suc (size v) | _ \<Rightarrow> 0))" for B
    by (cases "own_lookup obj ''undefined''") auto
qed auto

section \<open>realiseObject\<close>

text \<open>\<open>s.split(d)\<close> for a one-character delimiter: the pieces between the delimiters,
  at least one piece (the whole string when the delimiter does not occur).\<close>

fun split_str :: "char \<Rightarrow> string \<Rightarrow> string list" where
  "split_str d [] = [[]]"
| "split_str d (c # cs) =
     (if c = d then [] # split_str d cs
      else (case split_str d cs of
              [] \<Rightarrow> [[c]]
            | w # ws \<Rightarrow> (c # w) # ws))"

text \<open>
  \<^verbatim>\<open>
  function realiseObject (objectPath, objectInitialValue = {}) {
    function realiseObject_ (objectPathArr, objectInProgress) {
      if (objectPathArr.length === 0) { return objectInProgress }
      else { return realiseObject_(objectPathArr.slice(1), {[objectPathArr[0]]: objectInProgress}) }
    }
    return realiseObject_(objectPath.split('.').reverse(), objectInitialValue)
  }
  \<close>
  The inner function is \<open>realiseObject'\<close> here. The default \<open>{}\<close> stands in for an initial value that is \<open>undefined\<close>.
\<close>

fun realiseObject' :: "string list \<Rightarrow> jsval \<Rightarrow> jsval" where
  "realiseObject' [] objectInProgress = objectInProgress"
| "realiseObject' (k # objectPathArr) objectInProgress =
     realiseObject' objectPathArr (JObj [(k, objectInProgress)])"

definition realiseObject :: "string \<Rightarrow> jsval option \<Rightarrow> jsval" where
  "realiseObject objectPath objectInitialValue =
     realiseObject' (rev (split_str CHR ''.'' objectPath))
       (case objectInitialValue of None \<Rightarrow> JObj [] | Some v \<Rightarrow> v)"

section \<open>objectMerge\<close>

text \<open>The own enumerable properties of a value, as \<open>for ... in\<close> walks them: the
  properties of an object, the indices of an array, the indices of a string; nothing for
  the other primitives.\<close>

fun own_props :: "jsval \<Rightarrow> (string \<times> jsval) list" where
  "own_props (JObj kvs) = kvs"
| "own_props (JArr xs) = map (\<lambda>i. (index_string i, xs ! i)) [0..<length xs]"
| "own_props (JStr s) = map (\<lambda>i. (index_string i, JStr [s ! i])) [0..<length s]"
| "own_props v = []"

text \<open>
  Modelled from the spec: \<open>objectMerge\<close> is the package \<open>object-merge\<close>, which the source
  imports and does not contain. The spec (4.3, Shallow Merge) gives its contract:
  "For each top-level key in b, overwrite the corresponding key in a copy of a (or insert
  if absent)".
\<close>

definition objectMerge :: "jsval \<Rightarrow> jsval \<Rightarrow> jsval" where
  "objectMerge a b =
     JObj (foldl (\<lambda>acc (k, v). AList.update k v acc) (own_props a) (own_props b))"

section \<open>The host: sessionStorage, the console, timers\<close>

text \<open>
  \<open>sessionStorage\<close> is a list of key-value pairs of strings in insertion order, read as a
  map; \<open>sessionStorage[k]\<close> and \<open>sessionStorage[k] = v\<close> are \<open>getItem\<close> and \<open>setItem\<close>
  (a key that is the name of one of the Storage interface's own members is outside the
  model). The console is the list of the calls it received: the level, the module tag
  and the message. \<open>state\<close> is what \<open>store.getState()\<close> returns. \<open>debounceTimeout\<close> is
  the module's variable of that name, \<open>None\<close> for \<open>null\<close>. \<open>timers\<close> is the host's table
  of the pending timers that the module has set, from the handle \<open>setTimeout\<close> returned to
  the delay and the callback;
  the callback of \<open>save\<close> is determined by the validated \<open>states\<close> and \<open>namespace\<close> of
  its closure. Handles are positive and fresh (\<open>timer_count\<close> is the last one given out).
\<close>

datatype level = ConsoleError | ConsoleWarn

record job =
  job_states :: "jsval list"
  job_namespace :: string

record world =
  sessionStorage :: "(string \<times> string) list"
  console :: "(level \<times> string \<times> string) list"
  state :: jsval
  debounceTimeout :: "nat option"
  timers :: "(nat \<times> jsval \<times> job) list"
  timer_count :: nat

definition getItem :: "world \<Rightarrow> string \<Rightarrow> string option" where
  "getItem w k = map_of (sessionStorage w) k"

definition setItem :: "string \<Rightarrow> string \<Rightarrow> world \<Rightarrow> world" where
  "setItem k v w = w\<lparr>sessionStorage := AList.update k v (sessionStorage w)\<rparr>"

definition removeItem :: "string \<Rightarrow> world \<Rightarrow> world" where
  "removeItem k w = w\<lparr>sessionStorage := AList.delete k (sessionStorage w)\<rparr>"

definition MODULE_NAME :: string where
  "MODULE_NAME = ''[Redux-SessionStorage-Simple]''"

definition NAMESPACE_DEFAULT :: string where
  "NAMESPACE_DEFAULT = ''redux_sessionstorage_simple''"

definition STATES_DEFAULT :: jsval where
  "STATES_DEFAULT = JArr []"

definition DEBOUNCE_DEFAULT :: jsval where
  "DEBOUNCE_DEFAULT = JNum (Finite 0)"

definition IMMUTABLEJS_DEFAULT :: jsval where
  "IMMUTABLEJS_DEFAULT = JBool False"

definition DISABLE_WARNINGS_DEFAULT :: jsval where
  "DISABLE_WARNINGS_DEFAULT = JBool False"

definition console_error :: "string \<Rightarrow> world \<Rightarrow> world" where
  "console_error msg w = w\<lparr>console := console w @ [(ConsoleError, MODULE_NAME, msg)]\<rparr>"

definition console_warn :: "string \<Rightarrow> world \<Rightarrow> world" where
  "console_warn msg w = w\<lparr>console := console w @ [(ConsoleWarn, MODULE_NAME, msg)]\<rparr>"

definition setTimeout :: "job \<Rightarrow> jsval \<Rightarrow> world \<Rightarrow> nat \<times> world" where
  "setTimeout j delay w =
     (let h = Suc (timer_count w)
      in (h, w\<lparr>timers := timers w @ [(h, delay, j)], timer_count := h\<rparr>))"

definition clearTimeout :: "nat \<Rightarrow> world \<Rightarrow> world" where
  "clearTimeout h w = w\<lparr>timers := AList.delete h (timers w)\<rparr>"

section \<open>Utility functions\<close>

fun isArray :: "jsval option \<Rightarrow> bool" where
  "isArray (Some (JArr xs)) = True"
| "isArray v = False"

fun isString :: "jsval option \<Rightarrow> bool" where
  "isString (Some (JStr s)) = True"
| "isString v = False"

text \<open>\<open>typeof value === 'number' && isFinite(value) && Math.floor(value) === value\<close>\<close>

fun isInteger :: "jsval option \<Rightarrow> bool" where
  "isInteger (Some (JNum (Finite r))) = (of_int \<lfloor>r\<rfloor> = r)"
| "isInteger v = False"

text \<open>\<open>value !== null && typeof value === 'object'\<close>\<close>

fun isObject :: "jsval option \<Rightarrow> bool" where
  "isObject (Some (JArr xs)) = True"
| "isObject (Some (JObj kvs)) = True"
| "isObject v = False"

text \<open>The elements of a value known to be an array, the characters of one known to be a
  string: used on validated options only.\<close>

fun elements :: "jsval \<Rightarrow> jsval list" where
  "elements (JArr xs) = xs"
| "elements v = []"

fun chars :: "jsval \<Rightarrow> string" where
  "chars (JStr s) = s"
| "chars v = []"

text \<open>\<open>warn (disableWarnings)(warningMessage)\<close>\<close>

definition warn :: "jsval \<Rightarrow> string \<Rightarrow> world \<Rightarrow> world" where
  "warn disableWarnings warningMessage w =
     (if \<not> truthy (Some disableWarnings) then console_warn warningMessage w else w)"

section \<open>save\<close>

text \<open>The text of the message that reports an invalid option, for instance
  \<^verbatim>\<open>'debounce' parameter in 'save()' method was passed a non-integer value. Setting default value instead. Check your 'save()' method.\<close>\<close>

definition parameter_message :: "string \<Rightarrow> string \<Rightarrow> string \<Rightarrow> string" where
  "parameter_message parameter method kind =
     [CHR 0x27] @ parameter @ [CHR 0x27] @ '' parameter in '' @ [CHR 0x27] @ method @ ''()''
     @ [CHR 0x27] @ '' method was passed a non-'' @ kind
     @ '' value. Setting default value instead. Check your '' @ [CHR 0x27] @ method @ ''()''
     @ [CHR 0x27] @ '' method.''"

text \<open>
  \<open>save (config)\<close> binds the three variables of the closure, with the default for an
  option that is left out; the middleware it returns validates them on every action and
  assigns the default to an invalid one, so they are part of the state.
\<close>

record save_config =
  save_states :: "jsval option"
  save_namespace :: "jsval option"
  save_debounce :: "jsval option"

record save_vars =
  states :: jsval
  namespace :: jsval
  debounce :: jsval

definition save :: "save_config \<Rightarrow> save_vars" where
  "save config =
     \<lparr>states = (case save_states config of None \<Rightarrow> STATES_DEFAULT | Some v \<Rightarrow> v),
      namespace = (case save_namespace config of None \<Rightarrow> JStr NAMESPACE_DEFAULT | Some v \<Rightarrow> v),
      debounce = (case save_debounce config of None \<Rightarrow> DEBOUNCE_DEFAULT | Some v \<Rightarrow> v)\<rparr>"

text \<open>
  \<^verbatim>\<open>
  function getStateForSessionStorage (state, rootState) {
    const delimiter = '.'
    if (state.split(delimiter).length > 1) { return lensPath(state.split(delimiter), rootState) }
    else { return lensPath([state], rootState) }
  }
  \<close>
  Only a string has the method \<open>split\<close>.
\<close>

definition getStateForSessionStorage ::
  "builtins \<Rightarrow> jsval \<Rightarrow> jsval \<Rightarrow> error + ref option" where
  "getStateForSessionStorage B st rootState =
     (case st of
        JStr s \<Rightarrow>
          (if length (split_str CHR ''.'' s) > 1
           then lensPath B (split_str CHR ''.'' s) (Some (Plain rootState))
           else lensPath B [s] (Some (Plain rootState)))
      | _ \<Rightarrow> Inl TypeError)"

text \<open>
  The body of the \<open>forEach\<close> of \<open>_save\<close>, for one element of \<open>states\<close>:
  \<^verbatim>\<open>
  const stateForSessionStorage = getStateForSessionStorage(state, store.getState())
  if (stateForSessionStorage) {
    sessionStorage[namespace + '_' + state] = JSON.stringify(stateForSessionStorage)
  } else {
    // Make sure nothing is ever saved for this incorrect state
    sessionStorage.removeItem(namespace + '_' + state)
  }
  \<close>
  \<open>stored_text\<close> is the text that the assignment puts into the store: the result of
  \<open>JSON.stringify\<close>, which is \<open>undefined\<close> for \<open>undefined\<close> and stored as that word. The
  result of the body is the world as it leaves it and the exception it raised, if any.
\<close>

fun stored_text :: "builtins \<Rightarrow> ref option \<Rightarrow> string" where
  "stored_text B None = ''undefined''"
| "stored_text B (Some (Plain v)) = JSON_stringify B v"
| "stored_text B (Some (Host h)) = host_stringify B h"

definition save_state :: "builtins \<Rightarrow> string \<Rightarrow> jsval \<Rightarrow> world \<Rightarrow> world \<times> error option" where
  "save_state B ns st w =
     (case getStateForSessionStorage B st (state w) of
        Inl e \<Rightarrow> (w, Some e)
      | Inr stateForSessionStorage \<Rightarrow>
          (if truthy_ref stateForSessionStorage
           then (setItem (ns @ ''_'' @ chars st) (stored_text B stateForSessionStorage) w, None)
           else (removeItem (ns @ ''_'' @ chars st) w, None)))"

text \<open>\<open>states.forEach\<close>: an exception ends the loop and what was written stays written.\<close>

fun save_each :: "builtins \<Rightarrow> string \<Rightarrow> jsval list \<Rightarrow> world \<Rightarrow> world \<times> error option" where
  "save_each B ns [] w = (w, None)"
| "save_each B ns (st # rest) w =
     (case save_state B ns st w of
        (w', Some e) \<Rightarrow> (w', Some e)
      | (w', None) \<Rightarrow> save_each B ns rest w')"

text \<open>
  \<open>_save\<close>, here \<open>save'\<close>:
  \<^verbatim>\<open>
  function _save () {
    if (states.length === 0) { sessionStorage[namespace] = JSON.stringify(store.getState()) }
    else { states.forEach(state => { ... }) }
  }
  \<close>
\<close>

definition save' :: "builtins \<Rightarrow> jsval list \<Rightarrow> string \<Rightarrow> world \<Rightarrow> world \<times> error option" where
  "save' B sts ns w =
     (if length sts = 0 then (setItem ns (JSON_stringify B (state w)) w, None)
      else save_each B ns sts w)"

text \<open>
  The middleware \<open>store => next => action => { ... }\<close> on one action. \<open>next_action\<close> is
  \<open>next(action)\<close>: from the state of the store to the new state and the value returned.
  The result is the variables of the closure, the world, and the value returned or the
  exception raised.
\<close>

definition validate_states :: "string \<Rightarrow> jsval \<Rightarrow> world \<Rightarrow> jsval \<times> world" where
  "validate_states method v w =
     (if \<not> isArray (Some v)
      then (STATES_DEFAULT, console_error (parameter_message ''states'' method ''array'') w)
      else (v, w))"

definition validate_namespace :: "string \<Rightarrow> jsval \<Rightarrow> world \<Rightarrow> jsval \<times> world" where
  "validate_namespace method v w =
     (if \<not> isString (Some v)
      then (JStr NAMESPACE_DEFAULT, console_error (parameter_message ''namespace'' method ''string'') w)
      else (v, w))"

definition validate_debounce :: "string \<Rightarrow> jsval \<Rightarrow> world \<Rightarrow> jsval \<times> world" where
  "validate_debounce method v w =
     (if \<not> isInteger (Some v)
      then (DEBOUNCE_DEFAULT, console_error (parameter_message ''debounce'' method ''integer'') w)
      else (v, w))"

definition middleware ::
  "builtins \<Rightarrow> save_vars \<Rightarrow> (jsval \<Rightarrow> jsval \<times> jsval option) \<Rightarrow> world
     \<Rightarrow> save_vars \<times> world \<times> (error + jsval option)" where
  "middleware B vars next_action w0 =
     (let (s, returnValue) = next_action (state w0);
          w1 = w0\<lparr>state := s\<rparr>;
          (sts, w2) = validate_states ''save'' (states vars) w1;
          (ns, w3) = validate_namespace ''save'' (namespace vars) w2;
          (db, w4) = validate_debounce ''save'' (debounce vars) w3;
          vars' = \<lparr>states = sts, namespace = ns, debounce = db\<rparr>
      in if truthy (Some db)
         then
           (let w5 = (case debounceTimeout w4 of
                        None \<Rightarrow> w4
                      | Some h \<Rightarrow> if h \<noteq> 0 then clearTimeout h w4 else w4);
                (h', w6) = setTimeout \<lparr>job_states = elements sts, job_namespace = chars ns\<rparr> db w5
            in (vars', w6\<lparr>debounceTimeout := Some h'\<rparr>, Inr returnValue))
         else
           (case save' B (elements sts) (chars ns) w4 of
              (w5, Some e) \<Rightarrow> (vars', w5, Inl e)
            | (w5, None) \<Rightarrow> (vars', w5, Inr returnValue)))"

text \<open>The host runs the callback of the pending timer \<open>h\<close>: the timer leaves the table,
  then \<open>_save\<close> runs on the world as it is now.\<close>

definition fire :: "builtins \<Rightarrow> nat \<Rightarrow> world \<Rightarrow> world \<times> error option" where
  "fire B h w =
     (case map_of (timers w) h of
        None \<Rightarrow> (w, None)
      | Some (delay, j) \<Rightarrow>
          save' B (job_states j) (job_namespace j) (w\<lparr>timers := AList.delete h (timers w)\<rparr>))"

section \<open>load\<close>

record load_config =
  load_states :: "jsval option"
  load_immutablejs :: "jsval option"
  load_namespace :: "jsval option"
  load_preloadedState :: "jsval option"
  load_disableWarnings :: "jsval option"

definition immutablejs_message :: string where
  "immutablejs_message =
     ''Support for Immutable.js data structures has been deprecated as of version 2.0.0. Please use version 1.4.0 if you require this functionality.''"

text \<open>\<^verbatim>\<open>"Invalid load '" + (namespace + '_' + state) + "' provided. Check your 'states' in 'load()'. If this is your first time running this app you may see this message. To disable it in future use the 'disableWarnings' flag, see documentation."\<close>\<close>

definition invalid_load_message :: "string \<Rightarrow> string" where
  "invalid_load_message key =
     ''Invalid load '' @ [CHR 0x27] @ key @ [CHR 0x27]
     @ '' provided. Check your 'states' in 'load()'. If this is your first time running this app you may see this message. To disable it in future use the 'disableWarnings' flag, see documentation.''"

text \<open>\<open>namespace + '_' + state\<close>, for a \<open>state\<close> that need not be a string.\<close>

definition storage_key :: "builtins \<Rightarrow> string \<Rightarrow> jsval \<Rightarrow> string" where
  "storage_key B ns st = ns @ ''_'' @ (case st of JStr s \<Rightarrow> s | _ \<Rightarrow> ToString B st)"

text \<open>
  The body of the \<open>forEach\<close> of \<open>load\<close>, for one element of \<open>states\<close>:
  \<^verbatim>\<open>
  if (sessionStorage.getItem(namespace + '_' + state)) {
    loadedState = objectMerge(loadedState, realiseObject(state, JSON.parse(sessionStorage[namespace + '_' + state])))
  } else {
    warn_("Invalid load '" + (namespace + '_' + state) + "' provided. ...")
  }
  \<close>
  \<open>getItem\<close> gives \<open>null\<close> for a key that is not stored, and a stored empty string counts
  as false too. The stored text is parsed before \<open>realiseObject\<close> is entered, where
  \<open>split\<close> is called on \<open>state\<close>. The result is the world, and \<open>loadedState\<close> or the
  exception raised.
\<close>

definition load_state ::
  "builtins \<Rightarrow> jsval \<Rightarrow> string \<Rightarrow> jsval \<Rightarrow> world \<Rightarrow> jsval \<Rightarrow> world \<times> (error + jsval)" where
  "load_state B disableWarnings ns st w loadedState =
     (case getItem w (storage_key B ns st) of
        Some text \<Rightarrow>
          (if text \<noteq> []
           then (case JSON_parse B text of
                   None \<Rightarrow> (w, Inl SyntaxError)
                 | Some v \<Rightarrow>
                     (case st of
                        JStr s \<Rightarrow> (w, Inr (objectMerge loadedState (realiseObject s (Some v))))
                      | _ \<Rightarrow> (w, Inl TypeError)))
           else (warn disableWarnings (invalid_load_message (storage_key B ns st)) w,
                 Inr loadedState))
      | None \<Rightarrow>
          (warn disableWarnings (invalid_load_message (storage_key B ns st)) w, Inr loadedState))"

fun load_each ::
  "builtins \<Rightarrow> jsval \<Rightarrow> string \<Rightarrow> jsval list \<Rightarrow> world \<Rightarrow> jsval \<Rightarrow> world \<times> (error + jsval)" where
  "load_each B disableWarnings ns [] w loadedState = (w, Inr loadedState)"
| "load_each B disableWarnings ns (st # rest) w loadedState =
     (case load_state B disableWarnings ns st w loadedState of
        (w', Inl e) \<Rightarrow> (w', Inl e)
      | (w', Inr loadedState') \<Rightarrow> load_each B disableWarnings ns rest w' loadedState')"

text \<open>
  \<open>load (config)\<close>: the options with their defaults, the two validations, the deprecation
  notice, then the whole tree from the key \<open>namespace\<close> when \<open>states\<close> is empty, and the
  listed states one by one otherwise.
\<close>

definition load :: "builtins \<Rightarrow> load_config \<Rightarrow> world \<Rightarrow> world \<times> (error + jsval)" where
  "load B config w0 =
     (let immutablejs = (case load_immutablejs config of None \<Rightarrow> IMMUTABLEJS_DEFAULT | Some v \<Rightarrow> v);
          preloadedState = (case load_preloadedState config of None \<Rightarrow> JObj [] | Some v \<Rightarrow> v);
          disableWarnings =
            (case load_disableWarnings config of None \<Rightarrow> DISABLE_WARNINGS_DEFAULT | Some v \<Rightarrow> v);
          (sts, w1) =
            validate_states ''load''
              (case load_states config of None \<Rightarrow> STATES_DEFAULT | Some v \<Rightarrow> v) w0;
          (ns, w2) =
            validate_namespace ''load''
              (case load_namespace config of None \<Rightarrow> JStr NAMESPACE_DEFAULT | Some v \<Rightarrow> v) w1;
          w3 = (if immutablejs = JBool True then warn disableWarnings immutablejs_message w2 else w2)
      in if length (elements sts) = 0
         then (case getItem w3 (chars ns) of
                 Some text \<Rightarrow>
                   (if text \<noteq> []
                    then (case JSON_parse B text of
                            None \<Rightarrow> (w3, Inl SyntaxError)
                          | Some v \<Rightarrow> (w3, Inr v))
                    else (w3, Inr preloadedState))
               | None \<Rightarrow> (w3, Inr preloadedState))
         else load_each B disableWarnings (chars ns) (elements sts) w3 preloadedState)"

section \<open>combineLoads\<close>

definition combineLoads_message :: string where
  "combineLoads_message =
     ''One or more loads provided to 'combineLoads()' is not a valid object. Ignoring the invalid load/s. Check your 'combineLoads()' method.''"

text \<open>
  \<open>combinedLoad\<close> is an ordinary object that starts as \<open>{}\<close>: its own properties in
  enumeration order, and its prototype, which is \<open>Object.prototype\<close> at first and which
  an assignment to the key \<open>__proto__\<close> can change to \<open>null\<close> or to a value of the loads.
\<close>

datatype prototype = ObjectPrototype | NullPrototype | ValuePrototype jsval

record jsobject =
  own :: "(string \<times> jsval) list"
  proto :: prototype

text \<open>An array index is the decimal name of a number below \<open>2^32 - 1\<close>. The keys of an
  object that are array indices enumerate first, in ascending order, the other keys
  after them in the order of their creation.\<close>

fun decimal :: "string \<Rightarrow> nat \<Rightarrow> nat option" where
  "decimal [] n = Some n"
| "decimal (c # cs) n =
     (case map_of [(CHR ''0'', 0), (CHR ''1'', 1), (CHR ''2'', 2), (CHR ''3'', 3), (CHR ''4'', 4),
                   (CHR ''5'', 5), (CHR ''6'', 6), (CHR ''7'', 7), (CHR ''8'', 8), (CHR ''9'', 9)] c of
        None \<Rightarrow> None
      | Some d \<Rightarrow> decimal cs (10 * n + d))"

definition array_index :: "string \<Rightarrow> nat option" where
  "array_index k =
     (case decimal k 0 of
        None \<Rightarrow> None
      | Some n \<Rightarrow> if index_string n = k \<and> n < 4294967295 then Some n else None)"

fun insert_index :: "nat \<Rightarrow> string \<Rightarrow> jsval \<Rightarrow> (string \<times> jsval) list \<Rightarrow> (string \<times> jsval) list" where
  "insert_index n k v [] = [(k, v)]"
| "insert_index n k v (p # ps) =
     (case array_index (fst p) of
        None \<Rightarrow> (k, v) # p # ps
      | Some m \<Rightarrow> if m < n then p # insert_index n k v ps else (k, v) # p # ps)"

text \<open>The own data property \<open>k\<close> is given the value \<open>v\<close>: an existing key keeps its place,
  a new key takes the place its kind gives it.\<close>

definition define_prop :: "(string \<times> jsval) list \<Rightarrow> string \<Rightarrow> jsval \<Rightarrow> (string \<times> jsval) list" where
  "define_prop kvs k v =
     (case map_of kvs k of
        Some old \<Rightarrow> AList.update k v kvs
      | None \<Rightarrow>
          (case array_index k of
             None \<Rightarrow> kvs @ [(k, v)]
           | Some n \<Rightarrow> insert_index n k v kvs))"

text \<open>The setter of \<open>__proto__\<close> that \<open>Object.prototype\<close> has: an object or \<open>null\<close> becomes
  the prototype, any other value is ignored.\<close>

fun set_prototype :: "jsobject \<Rightarrow> jsval \<Rightarrow> jsobject" where
  "set_prototype obj (JObj kvs) = obj\<lparr>proto := ValuePrototype (JObj kvs)\<rparr>"
| "set_prototype obj (JArr xs) = obj\<lparr>proto := ValuePrototype (JArr xs)\<rparr>"
| "set_prototype obj JNull = obj\<lparr>proto := NullPrototype\<rparr>"
| "set_prototype obj v = obj"

text \<open>
  The assignment \<open>obj[k] = v\<close> on such an object. An own property takes the value. A key
  that is not an own property is looked up along the prototype chain: every property
  found there is a writable data property, for which the assignment creates the own
  property, but for \<open>__proto__\<close> on \<open>Object.prototype\<close>, whose setter runs instead. So
  the key \<open>__proto__\<close> becomes an own property only if it is one already, if the
  prototype is \<open>null\<close>, or if the prototype is a value that has the key as its own.
\<close>

definition set_prop :: "jsobject \<Rightarrow> string \<Rightarrow> jsval \<Rightarrow> jsobject" where
  "set_prop obj k v =
     (if k \<noteq> ''__proto__'' \<or> map_of (own obj) k \<noteq> None
      then obj\<lparr>own := define_prop (own obj) k v\<rparr>
      else (case proto obj of
              ObjectPrototype \<Rightarrow> set_prototype obj v
            | NullPrototype \<Rightarrow> obj\<lparr>own := define_prop (own obj) k v\<rparr>
            | ValuePrototype p \<Rightarrow>
                if map_of (own_props p) k \<noteq> None
                then obj\<lparr>own := define_prop (own obj) k v\<rparr>
                else set_prototype obj v))"

text \<open>
  The body of the \<open>forEach\<close> of \<open>combineLoads\<close>, for one argument:
  \<^verbatim>\<open>
  if (!isObject(load)) { console.error(MODULE_NAME, "..."); load = {} }
  for (let state in load) { combinedLoad[state] = load[state] }
  \<close>
  A load is plain data, so the loop walks its own properties.
\<close>

definition combine_load ::
  "jsval option \<Rightarrow> world \<times> jsobject \<Rightarrow> world \<times> jsobject" where
  "combine_load ld wc =
     (let (w, combinedLoad) = wc;
          (ld', w') =
            (if \<not> isObject ld then (JObj [], console_error combineLoads_message w)
             else (case ld of None \<Rightarrow> (JObj [], w) | Some v \<Rightarrow> (v, w)))
      in (w', foldl (\<lambda>acc k. case map_of (own_props ld') k of
                                 None \<Rightarrow> acc
                               | Some v \<Rightarrow> set_prop acc k v)
                combinedLoad (map fst (own_props ld'))))"

definition combineLoads :: "jsval option list \<Rightarrow> world \<Rightarrow> world \<times> jsobject" where
  "combineLoads loads w =
     foldl (\<lambda>wc ld. combine_load ld wc) (w, \<lparr>own = [], proto = ObjectPrototype\<rparr>) loads"



section \<open>clear\<close>

record clear_config =
  clear_namespace :: "jsval option"

text \<open>
  \<^verbatim>\<open>
  for (let key in sessionStorage) {
    // key starts with namespace
    if (key.slice(0, namespace.length) === namespace) { sessionStorage.removeItem(key) }
  }
  \<close>
  The loop walks the keys the store had when it started.
\<close>

definition clear :: "clear_config \<Rightarrow> world \<Rightarrow> world" where
  "clear config w0 =
     (let (ns, w1) =
            validate_namespace ''clear''
              (case clear_namespace config of None \<Rightarrow> JStr NAMESPACE_DEFAULT | Some v \<Rightarrow> v) w0
      in foldl (\<lambda>w key. if take (length (chars ns)) key = chars ns then removeItem key w else w)
           w1 (map fst (sessionStorage w1)))"

section \<open>Runs of the program\<close>

text \<open>
  What can happen to the world once the module is loaded: an action goes through a
  middleware that \<open>save\<close> returned, the host runs the callback of a pending timer, or
  \<open>load\<close>, \<open>combineLoads\<close> or \<open>clear\<close> is called. \<open>Dispatch vars next_action\<close> is an
  action through a middleware whose closure holds \<open>vars\<close>, any middleware of any call of
  \<open>save\<close>: they all share the one \<open>debounceTimeout\<close>. When a pending timer runs is the
  host's choice, so a run may fire it at any point.
\<close>

datatype event =
    Dispatch save_vars "jsval \<Rightarrow> jsval \<times> jsval option"
  | Fire nat
  | Load load_config
  | CombineLoads "jsval option list"
  | Clear clear_config

fun step :: "builtins \<Rightarrow> world \<Rightarrow> event \<Rightarrow> world" where
  "step B w (Dispatch vars next_action) = fst (snd (middleware B vars next_action w))"
| "step B w (Fire h) = fst (fire B h w)"
| "step B w (Load config) = fst (load B config w)"
| "step B w (CombineLoads loads) = fst (combineLoads loads w)"
| "step B w (Clear config) = clear config w"

definition run :: "builtins \<Rightarrow> world \<Rightarrow> event list \<Rightarrow> world" where
  "run B w evs = foldl (step B) w evs"

text \<open>The world when the module has just been loaded: \<open>let debounceTimeout = null\<close>, and
  no timer of the module is pending.\<close>

definition module_loaded :: "world \<Rightarrow> bool" where
  "module_loaded w = (debounceTimeout w = None \<and> timers w = [])"

text \<open>At most one timer is pending, and \<open>debounceTimeout\<close> holds its handle.\<close>

definition single_slot :: "world \<Rightarrow> bool" where
  "single_slot w =
     (case timers w of
        [] \<Rightarrow> True
      | [(h, delay, j)] \<Rightarrow> debounceTimeout w = Some h \<and> h \<noteq> 0
      | _ \<Rightarrow> False)"

section \<open>An instance of the built-ins\<close>

text \<open>
  For the examples: \<open>JSON.stringify\<close>, \<open>JSON.parse\<close> and the conversion to a string on the
  values the examples use, which are \<open>null\<close>, the booleans, the integers, strings of
  letters and digits, and arrays and objects of these.
\<close>

fun join :: "string \<Rightarrow> string list \<Rightarrow> string" where
  "join sep [] = []"
| "join sep [s] = s"
| "join sep (s # t # ss) = s @ sep @ join sep (t # ss)"

definition integer_string :: "rat \<Rightarrow> string" where
  "integer_string r = (if r < 0 then ''-'' else []) @ index_string (nat \<bar>\<lfloor>r\<rfloor>\<bar>)"

definition quoted :: "string \<Rightarrow> string" where
  "quoted s = [CHR 0x22] @ s @ [CHR 0x22]"

fun example_stringify :: "jsval \<Rightarrow> string" where
  "example_stringify JNull = ''null''"
| "example_stringify (JBool b) = (if b then ''true'' else ''false'')"
| "example_stringify (JNum (Finite r)) = integer_string r"
| "example_stringify (JNum n) = ''null''"
| "example_stringify (JStr s) = quoted s"
| "example_stringify (JArr xs) = ''['' @ join '','' (map example_stringify xs) @ '']''"
| "example_stringify (JObj kvs) =
     ''{'' @ join '','' (map (\<lambda>kv. quoted (fst kv) @ '':'' @ example_stringify (snd kv)) kvs) @ ''}''"

definition example_parse :: "string \<Rightarrow> jsval option" where
  "example_parse text =
     find (\<lambda>v. example_stringify v = text)
       [JNull, JBool True, JBool False, JNum (Finite 0), JNum (Finite 1),
        JObj [(''name'', JStr ''a'')], JArr [JNum (Finite 1), JNum (Finite 2)]]"

fun example_ToString :: "jsval \<Rightarrow> string" where
  "example_ToString JNull = ''null''"
| "example_ToString (JBool b) = (if b then ''true'' else ''false'')"
| "example_ToString (JNum (Finite r)) = integer_string r"
| "example_ToString (JNum NaN) = ''NaN''"
| "example_ToString (JNum PosInfinity) = ''Infinity''"
| "example_ToString (JNum NegInfinity) = ''-Infinity''"
| "example_ToString (JStr s) = s"
| "example_ToString (JArr xs) =
     join '','' (map (\<lambda>x. if x = JNull then [] else example_ToString x) xs)"
| "example_ToString (JObj kvs) = ''[object Object]''"

text \<open>Of the inherited members the instance has the three functions that every value
  other than \<open>null\<close> takes from \<open>Object.prototype\<close> itself, with their names and their
  lengths; the examples read own properties.\<close>

definition example_members :: "string list" where
  "example_members = [''hasOwnProperty'', ''isPrototypeOf'', ''propertyIsEnumerable'']"

definition example_inherited :: "jsval \<Rightarrow> string \<Rightarrow> error + ref option" where
  "example_inherited v k =
     Inr (map_option Host (find (\<lambda>h. example_members ! h = k) [0, 1, 2]))"

definition example_host_get :: "nat \<Rightarrow> string \<Rightarrow> error + ref option" where
  "example_host_get h k =
     Inr (if h < 3 \<and> k = ''name'' then Some (Plain (JStr (example_members ! h)))
          else if h < 3 \<and> k = ''length'' then Some (Plain (JNum (Finite 1)))
          else None)"

definition example_builtins :: builtins where
  "example_builtins =
     \<lparr>JSON_stringify = example_stringify, JSON_parse = example_parse,
      ToString = example_ToString, inherited = example_inherited,
      host_get = example_host_get, host_stringify = (\<lambda>h. ''undefined'')\<rparr>"

text \<open>A world just after the module was loaded: an empty store, a silent console, the
  given state of the application.\<close>

definition fresh_world :: "jsval \<Rightarrow> world" where
  "fresh_world s =
     \<lparr>sessionStorage = [], console = [], state = s, debounceTimeout = None,
      timers = [], timer_count = 0\<rparr>"

section \<open>Frame lemmas\<close>

lemma world_console_id [simp]: "w\<lparr>console := console w\<rparr> = w"
  by simp

lemma warn_fields [simp]:
  "sessionStorage (warn d m w) = sessionStorage w"
  "timers (warn d m w) = timers w"
  "debounceTimeout (warn d m w) = debounceTimeout w"
  "state (warn d m w) = state w"
  by (simp_all add: warn_def console_warn_def)

lemma console_error_fields [simp]:
  "sessionStorage (console_error m w) = sessionStorage w"
  "timers (console_error m w) = timers w"
  "debounceTimeout (console_error m w) = debounceTimeout w"
  "state (console_error m w) = state w"
  "console (console_error m w) = console w @ [(ConsoleError, MODULE_NAME, m)]"
  by (simp_all add: console_error_def)

lemma validate_states_fields:
  "validate_states m v w = (v', w') \<Longrightarrow>
     sessionStorage w' = sessionStorage w \<and> timers w' = timers w
     \<and> debounceTimeout w' = debounceTimeout w \<and> state w' = state w"
  by (auto simp: validate_states_def split: if_splits)

lemma validate_namespace_fields:
  "validate_namespace m v w = (v', w') \<Longrightarrow>
     sessionStorage w' = sessionStorage w \<and> timers w' = timers w
     \<and> debounceTimeout w' = debounceTimeout w \<and> state w' = state w"
  by (auto simp: validate_namespace_def split: if_splits)

lemma validate_debounce_fields:
  "validate_debounce m v w = (v', w') \<Longrightarrow>
     sessionStorage w' = sessionStorage w \<and> timers w' = timers w
     \<and> debounceTimeout w' = debounceTimeout w \<and> state w' = state w"
  by (auto simp: validate_debounce_def split: if_splits)

lemma load_state_fields:
  "load_state B d ns st w acc = (w', r) \<Longrightarrow>
     sessionStorage w' = sessionStorage w \<and> timers w' = timers w
     \<and> debounceTimeout w' = debounceTimeout w"
  by (auto simp: load_state_def split: option.splits if_splits jsval.splits)

lemma load_each_fields:
  "load_each B d ns sts w acc = (w', r) \<Longrightarrow>
     sessionStorage w' = sessionStorage w \<and> timers w' = timers w
     \<and> debounceTimeout w' = debounceTimeout w"
proof (induction sts arbitrary: w acc)
  case Nil
  then show ?case by simp
next
  case (Cons st sts)
  obtain w1 r1 where s: "load_state B d ns st w acc = (w1, r1)"
    by (cases "load_state B d ns st w acc")
  note f = load_state_fields [OF s]
  show ?case
  proof (cases r1)
    case (Inl e)
    with Cons.prems s f show ?thesis by simp
  next
    case (Inr acc')
    with Cons.prems s have "load_each B d ns sts w1 acc' = (w', r)" by simp
    from Cons.IH [OF this] f show ?thesis by simp
  qed
qed

lemma load_fields:
  "load B config w = (w', r) \<Longrightarrow>
     sessionStorage w' = sessionStorage w \<and> timers w' = timers w
     \<and> debounceTimeout w' = debounceTimeout w"
proof -
  assume a: "load B config w = (w', r)"
  obtain sts w1 where v1: "validate_states ''load''
       (case load_states config of None \<Rightarrow> STATES_DEFAULT | Some v \<Rightarrow> v) w = (sts, w1)"
    by (cases "validate_states ''load''
       (case load_states config of None \<Rightarrow> STATES_DEFAULT | Some v \<Rightarrow> v) w")
  obtain ns w2 where v2: "validate_namespace ''load''
       (case load_namespace config of None \<Rightarrow> JStr NAMESPACE_DEFAULT | Some v \<Rightarrow> v) w1 = (ns, w2)"
    by (cases "validate_namespace ''load''
       (case load_namespace config of None \<Rightarrow> JStr NAMESPACE_DEFAULT | Some v \<Rightarrow> v) w1")
  define d where
    "d = (case load_disableWarnings config of None \<Rightarrow> DISABLE_WARNINGS_DEFAULT | Some v \<Rightarrow> v)"
  define pre where
    "pre = (case load_preloadedState config of None \<Rightarrow> JObj [] | Some v \<Rightarrow> v)"
  define w3 where
    "w3 = (if (case load_immutablejs config of None \<Rightarrow> IMMUTABLEJS_DEFAULT | Some v \<Rightarrow> v)
              = JBool True
           then warn d immutablejs_message w2 else w2)"
  have f3: "sessionStorage w3 = sessionStorage w \<and> timers w3 = timers w
     \<and> debounceTimeout w3 = debounceTimeout w"
    using validate_states_fields [OF v1] validate_namespace_fields [OF v2]
    by (simp add: w3_def)
  have l: "load B config w =
     (if length (elements sts) = 0
      then (case getItem w3 (chars ns) of
              Some text \<Rightarrow>
                (if text \<noteq> []
                 then (case JSON_parse B text of
                         None \<Rightarrow> (w3, Inl SyntaxError)
                       | Some v \<Rightarrow> (w3, Inr v))
                 else (w3, Inr pre))
            | None \<Rightarrow> (w3, Inr pre))
      else load_each B d (chars ns) (elements sts) w3 pre)"
    unfolding load_def Let_def w3_def d_def pre_def by (simp only: v1 v2 prod.case)
  show ?thesis
  proof (cases "length (elements sts) = 0")
    case True
    with a l have "w' = w3" by (auto split: option.splits if_splits)
    with f3 show ?thesis by simp
  next
    case False
    with a l have "load_each B d (chars ns) (elements sts) w3 pre = (w', r)" by simp
    from load_each_fields [OF this] f3 show ?thesis by simp
  qed
qed

section \<open>lensPath on null (C1)\<close>

text \<open>A property read on \<open>null\<close> faults, whatever the host; an own property is found
  before the prototype chain is asked; on an object that is \<open>undefined\<close> \<open>lensPath\<close>
  returns \<open>null\<close>.\<close>

lemma get_prop_null: "get_prop B (Plain JNull) k = Inl TypeError"
  by simp

lemma get_prop_own:
  "own_lookup v k = Some x \<Longrightarrow> get_prop B (Plain v) k = Inr (Some (Plain x))"
  by (cases v) simp_all

lemma lensPath_undefined: "lensPath B path None = Inr (Some (Plain JNull))"
  by simp

text \<open>
  C1. The claim: for every non-empty path and every object, \<open>lensPath\<close> returns the value
  found by walking the segments, returns the absent value instead of raising when the
  object is absent at some point of the walk, and never faults, whatever value the walk
  meets, \<open>null\<close> included.

  The guard of \<open>lensPath\<close> tests for \<open>undefined\<close> only. On the object \<open>{a: null}\<close> and the
  path \<open>a.b\<close> the second call reads the property \<open>b\<close> of \<open>null\<close>, which raises a TypeError:
  the code does not do what the claim says.
\<close>

theorem lensPath_null_faults:
  "lensPath B [''a'', ''b''] (Some (Plain (JObj [(''a'', JNull)]))) = Inl TypeError"
  by simp

section \<open>realiseObject and the round trip (C4, C5)\<close>

lemma split_str_nonempty: "split_str d s \<noteq> []"
  by (induction s) (auto split: list.splits)

lemma realiseObject'_foldl: "realiseObject' ks v = foldl (\<lambda>acc k. JObj [(k, acc)]) v ks"
  by (induction ks arbitrary: v) auto

lemma realiseObject_foldr:
  "realiseObject p (Some v) = foldr (\<lambda>k acc. JObj [(k, acc)]) (split_str CHR ''.'' p) v"
  by (simp add: realiseObject_def realiseObject'_foldl foldl_conv_foldr)

lemma lensPath_nest:
  "ks \<noteq> [] \<Longrightarrow>
     lensPath B ks (Some (Plain (foldr (\<lambda>k acc. JObj [(k, acc)]) ks v))) = Inr (Some (Plain v))"
proof (induction ks)
  case Nil
  then show ?case by simp
next
  case (Cons k ks)
  show ?case
  proof (cases ks)
    case Nil
    then show ?thesis by simp
  next
    case (Cons k' rest)
    with Cons.IH show ?thesis by simp
  qed
qed

lemma objectMerge_single: "objectMerge (JObj []) (JObj [(k, v)]) = JObj [(k, v)]"
  by (simp add: objectMerge_def)

lemma foldr_single:
  "ks \<noteq> [] \<Longrightarrow> \<exists>k v'. foldr (\<lambda>k acc. JObj [(k, acc)]) ks v = JObj [(k, v')]"
  by (cases ks) auto

text \<open>
  C4. Round trip of realisation and lookup: for every dot-delimited path \<open>p\<close> and every
  value \<open>T\<close>, merging the empty object with \<open>realiseObject (p, T)\<close> and then applying
  \<open>lensPath\<close> to the split path gives \<open>T\<close> back, with no exception.
\<close>

theorem realise_lens_roundtrip:
  "lensPath B (split_str CHR ''.'' p)
     (Some (Plain (objectMerge (JObj []) (realiseObject p (Some T))))) = Inr (Some (Plain T))"
proof -
  let ?ks = "split_str CHR ''.'' p"
  have ne: "?ks \<noteq> []" by (rule split_str_nonempty)
  obtain k v' where "foldr (\<lambda>k acc. JObj [(k, acc)]) ?ks T = JObj [(k, v')]"
    using foldr_single [OF ne] by blast
  then have "objectMerge (JObj []) (realiseObject p (Some T))
      = foldr (\<lambda>k acc. JObj [(k, acc)]) ?ks T"
    by (simp add: realiseObject_foldr objectMerge_single)
  then show ?thesis by (simp add: lensPath_nest [OF ne])
qed

text \<open>
  C5. \<open>realiseObject\<close> is a function of its two arguments alone; it splits the path on
  the dot and nests one single-key object per segment, the innermost segment around the
  value, so that for every value \<open>v\<close> the path \<open>a.b.c\<close> gives \<open>{a: {b: {c: v}}}\<close> and the
  path \<open>x\<close> gives \<open>{x: v}\<close>.
\<close>

theorem realiseObject_nested:
  "realiseObject p (Some v) = foldr (\<lambda>k acc. JObj [(k, acc)]) (split_str CHR ''.'' p) v
   \<and> realiseObject ''a.b.c'' (Some v) = JObj [(''a'', JObj [(''b'', JObj [(''c'', v)])])]
   \<and> realiseObject ''x'' (Some v) = JObj [(''x'', v)]"
  by (simp add: realiseObject_foldr)

section \<open>load (C6, C10)\<close>

text \<open>
  C6. In per-path mode, for a path whose key \<open>namespace_path\<close> is absent from the store,
  the step of \<open>load\<close> for that path leaves the accumulated state as it is and the world
  too, but for the console, which receives exactly one warning; with a \<open>disableWarnings\<close>
  that holds (\<open>true\<close> in particular) the console receives nothing. So \<open>load\<close> on the one
  path returns \<open>preloadedState\<close> with one warning, and with none under
  \<open>disableWarnings: true\<close>.
\<close>

theorem load_missing_key:
  "getItem w (ns @ ''_'' @ p) = None \<Longrightarrow>
     load_state B dw ns (JStr p) w loadedState =
       (w\<lparr>console := console w @
            (if truthy (Some dw) then []
             else [(ConsoleWarn, MODULE_NAME, invalid_load_message (ns @ ''_'' @ p))])\<rparr>,
        Inr loadedState)
     \<and> load B \<lparr>load_states = Some (JArr [JStr p]), load_immutablejs = None,
                load_namespace = Some (JStr ns), load_preloadedState = Some pre,
                load_disableWarnings = Some dw\<rparr> w =
       (w\<lparr>console := console w @
            (if truthy (Some dw) then []
             else [(ConsoleWarn, MODULE_NAME, invalid_load_message (ns @ ''_'' @ p))])\<rparr>,
        Inr pre)
     \<and> load B \<lparr>load_states = Some (JArr [JStr p]), load_immutablejs = None,
                load_namespace = Some (JStr ns), load_preloadedState = Some pre,
                load_disableWarnings = Some (JBool True)\<rparr> w = (w, Inr pre)"
proof -
  assume a: "getItem w (ns @ ''_'' @ p) = None"
  have step: "load_state B d ns (JStr p) w acc =
       (w\<lparr>console := console w @
            (if truthy (Some d) then []
             else [(ConsoleWarn, MODULE_NAME, invalid_load_message (ns @ ''_'' @ p))])\<rparr>,
        Inr acc)" for d acc
    using a by (simp add: load_state_def storage_key_def warn_def console_warn_def)
  have whole: "load B \<lparr>load_states = Some (JArr [JStr p]), load_immutablejs = None,
                load_namespace = Some (JStr ns), load_preloadedState = Some pre,
                load_disableWarnings = Some d\<rparr> w = load_state B d ns (JStr p) w pre" for d
    by (simp add: load_def validate_states_def validate_namespace_def IMMUTABLEJS_DEFAULT_def
          split: prod.splits sum.splits)
  show ?thesis
    by (simp only: whole step) simp
qed

theorem load_missing_key_witness:
  "getItem (fresh_world JNull) (''app'' @ ''_'' @ ''user'') = None
   \<and> load example_builtins
        \<lparr>load_states = Some (JArr [JStr ''user'']), load_immutablejs = None,
         load_namespace = Some (JStr ''app''),
         load_preloadedState = Some (JObj [(''theme'', JStr ''dark'')]),
         load_disableWarnings = Some (JBool False)\<rparr> (fresh_world JNull) =
       ((fresh_world JNull)
          \<lparr>console := [(ConsoleWarn, MODULE_NAME, invalid_load_message ''app_user'')]\<rparr>,
        Inr (JObj [(''theme'', JStr ''dark'')]))
   \<and> load example_builtins
        \<lparr>load_states = Some (JArr [JStr ''user'']), load_immutablejs = None,
         load_namespace = Some (JStr ''app''),
         load_preloadedState = Some (JObj [(''theme'', JStr ''dark'')]),
         load_disableWarnings = Some (JBool True)\<rparr> (fresh_world JNull) =
       (fresh_world JNull, Inr (JObj [(''theme'', JStr ''dark'')]))"
proof -
  have h: "getItem (fresh_world JNull) (''app'' @ ''_'' @ ''user'') = None"
    by (simp add: getItem_def fresh_world_def)
  show ?thesis
    using h load_missing_key [OF h, of example_builtins "JBool False" JNull
        "JObj [(''theme'', JStr ''dark'')]"]
    by (simp add: fresh_world_def)
qed

text \<open>
  C10. \<open>load\<close> only reads the store: for every configuration and every world, the store
  after \<open>load\<close> holds the keys and values it held before, also when \<open>load\<close> ends with an
  exception.
\<close>

theorem load_store_unchanged:
  "sessionStorage (fst (load B config w)) = sessionStorage w"
  using load_fields [of B config w] by (cases "load B config w") simp

section \<open>clear (C7)\<close>

lemma delete_filter: "AList.delete k xs = filter (\<lambda>kv. fst kv \<noteq> k) xs"
  by (induction xs) auto

lemma foldl_removeItem:
  "foldl (\<lambda>w key. if P key then removeItem key w else w) w keys =
     w\<lparr>sessionStorage :=
         filter (\<lambda>kv. \<not> (fst kv \<in> set keys \<and> P (fst kv))) (sessionStorage w)\<rparr>"
proof (induction keys arbitrary: w)
  case Nil
  then show ?case by simp
next
  case (Cons k keys)
  show ?case
  proof (cases "P k")
    case True
    have "filter (\<lambda>kv. \<not> (fst kv \<in> set keys \<and> P (fst kv)))
            (filter (\<lambda>kv. fst kv \<noteq> k) (sessionStorage w))
        = filter (\<lambda>kv. \<not> (fst kv \<in> set (k # keys) \<and> P (fst kv))) (sessionStorage w)"
      using True by (auto intro: filter_cong)
    with True show ?thesis by (simp add: Cons.IH removeItem_def delete_filter)
  next
    case False
    have "filter (\<lambda>kv. \<not> (fst kv \<in> set keys \<and> P (fst kv))) (sessionStorage w)
        = filter (\<lambda>kv. \<not> (fst kv \<in> set (k # keys) \<and> P (fst kv))) (sessionStorage w)"
      using False by (auto intro: filter_cong)
    with False show ?thesis by (simp add: Cons.IH)
  qed
qed

lemma map_of_filter_key:
  "map_of (filter (\<lambda>kv. Q (fst kv)) xs) k = (if Q k then map_of xs k else None)"
  by (induction xs) auto

lemma clear_string:
  "clear \<lparr>clear_namespace = Some (JStr ns)\<rparr> w =
     w\<lparr>sessionStorage := filter (\<lambda>kv. take (length ns) (fst kv) \<noteq> ns) (sessionStorage w)\<rparr>"
proof -
  have "filter (\<lambda>kv. \<not> (fst kv \<in> set (map fst (sessionStorage w))
                        \<and> take (length ns) (fst kv) = ns)) (sessionStorage w)
      = filter (\<lambda>kv. take (length ns) (fst kv) \<noteq> ns) (sessionStorage w)"
    by (rule filter_cong) auto
  then show ?thesis
    by (simp add: clear_def validate_namespace_def foldl_removeItem)
qed

text \<open>
  C7. For every store and every string namespace, \<open>clear\<close> removes the entries whose key
  has the namespace as its first characters, compared character by character, and
  nothing else: what is left of the world is the world with the other entries, in their
  order and with their values. A lookup of a key that starts with the namespace finds
  nothing afterwards, a lookup of any other key finds what it found before. The
  namespace \<open>app\<close> takes the key \<open>app2_x\<close> away with \<open>app_user\<close>.
\<close>

theorem clear_removes_prefixed:
  "clear \<lparr>clear_namespace = Some (JStr ns)\<rparr> w =
     w\<lparr>sessionStorage := filter (\<lambda>kv. take (length ns) (fst kv) \<noteq> ns) (sessionStorage w)\<rparr>
   \<and> getItem (clear \<lparr>clear_namespace = Some (JStr ns)\<rparr> w) k =
       (if take (length ns) k = ns then None else getItem w k)
   \<and> sessionStorage (clear \<lparr>clear_namespace = Some (JStr ''app'')\<rparr>
        (w\<lparr>sessionStorage := [(''app_user'', u), (''app2_x'', x), (''other'', y)]\<rparr>)) =
       [(''other'', y)]"
  by (simp add: clear_string getItem_def
        map_of_filter_key [where Q = "\<lambda>k. take (length ns) k \<noteq> ns"])

section \<open>Frame lemmas of save\<close>

lemma setItem_fields [simp]:
  "timers (setItem k v w) = timers w"
  "debounceTimeout (setItem k v w) = debounceTimeout w"
  "console (setItem k v w) = console w"
  "state (setItem k v w) = state w"
  "timer_count (setItem k v w) = timer_count w"
  by (simp_all add: setItem_def)

lemma removeItem_fields [simp]:
  "timers (removeItem k w) = timers w"
  "debounceTimeout (removeItem k w) = debounceTimeout w"
  "console (removeItem k w) = console w"
  "state (removeItem k w) = state w"
  "timer_count (removeItem k w) = timer_count w"
  by (simp_all add: removeItem_def)

lemma save_state_fields:
  "save_state B ns st w = (w', e) \<Longrightarrow>
     timers w' = timers w \<and> debounceTimeout w' = debounceTimeout w
     \<and> console w' = console w \<and> state w' = state w \<and> timer_count w' = timer_count w"
  by (auto simp: save_state_def split: sum.splits if_splits)

lemma save_each_fields:
  "save_each B ns sts w = (w', e) \<Longrightarrow>
     timers w' = timers w \<and> debounceTimeout w' = debounceTimeout w
     \<and> console w' = console w \<and> state w' = state w \<and> timer_count w' = timer_count w"
proof (induction sts arbitrary: w)
  case Nil
  then show ?case by simp
next
  case (Cons st sts)
  obtain w1 e1 where s: "save_state B ns st w = (w1, e1)" by (cases "save_state B ns st w")
  note f = save_state_fields [OF s]
  show ?case
  proof (cases e1)
    case None
    with Cons.prems s have "save_each B ns sts w1 = (w', e)" by simp
    from Cons.IH [OF this] f show ?thesis by simp
  next
    case (Some x)
    with Cons.prems s f show ?thesis by simp
  qed
qed

lemma save'_fields:
  "save' B sts ns w = (w', e) \<Longrightarrow>
     timers w' = timers w \<and> debounceTimeout w' = debounceTimeout w
     \<and> console w' = console w \<and> state w' = state w \<and> timer_count w' = timer_count w"
  by (auto simp: save'_def split: if_splits dest: save_each_fields)

lemma save'_whole_tree:
  "save' B [] ns w = (setItem ns (JSON_stringify B (state w)) w, None)"
  by (simp add: save'_def)

section \<open>What save writes and what it removes (C2)\<close>

text \<open>The body of the loop of \<open>_save\<close> tests the truth value of what \<open>lensPath\<close>
  returned: a value that counts as true is written, everything else removes the key.\<close>

lemma save_state_truthy:
  "getStateForSessionStorage B (JStr p) (state w) = Inr r \<Longrightarrow> truthy_ref r \<Longrightarrow>
     save_state B ns (JStr p) w = (setItem (ns @ ''_'' @ p) (stored_text B r) w, None)"
  by (simp add: save_state_def)

lemma save_state_falsy:
  "getStateForSessionStorage B (JStr p) (state w) = Inr r \<Longrightarrow> \<not> truthy_ref r \<Longrightarrow>
     save_state B ns (JStr p) w = (removeItem (ns @ ''_'' @ p) w, None)"
  by (simp add: save_state_def)

text \<open>A segment that names an inherited member finds a built-in of the host: a function
  counts as true, and the store receives the text \<open>undefined\<close> for it.\<close>

lemma save_inherited_member:
  "save_state example_builtins ''app'' (JStr ''hasOwnProperty'') (fresh_world (JObj [])) =
     ((fresh_world (JObj []))\<lparr>sessionStorage := [(''app_hasOwnProperty'', ''undefined'')]\<rparr>, None)
   \<and> lensPath example_builtins [''hasOwnProperty'', ''name''] (Some (Plain (JObj []))) =
       Inr (Some (Plain (JStr ''hasOwnProperty'')))"
  by (simp add: save_state_def getStateForSessionStorage_def fresh_world_def setItem_def
        example_builtins_def example_inherited_def example_host_get_def example_members_def)

text \<open>
  C2. The claim: in per-path mode, for every path in \<open>states\<close>, a value that \<open>lensPath\<close>
  finds at the path is written, serialised, under \<open>namespace_path\<close>, and the key is
  removed when the path is not found; so a value that exists at the path, such as \<open>0\<close>,
  \<open>false\<close>, the empty string or \<open>null\<close>, is written and never deleted.

  The code tests \<open>if (stateForSessionStorage)\<close>, and its other branch, which the comment
  gives to an "incorrect state", also takes the values that exist and count as false. On
  the state \<open>{a: 0, b: false, c: "", d: null, e: 1}\<close> with all five paths listed and all
  five keys stored, one action leaves the key of \<open>e\<close> alone in the store: the code does
  not do what the claim says.
\<close>

theorem save_falsy_values_removed:
  "sessionStorage (fst (snd (middleware example_builtins
       (save \<lparr>save_states = Some (JArr [JStr ''a'', JStr ''b'', JStr ''c'', JStr ''d'', JStr ''e'']),
              save_namespace = Some (JStr ''app''), save_debounce = None\<rparr>)
       (\<lambda>s. (JObj [(''a'', JNum (Finite 0)), (''b'', JBool False), (''c'', JStr ''''),
                    (''d'', JNull), (''e'', JNum (Finite 1))], None))
       ((fresh_world (JObj []))
          \<lparr>sessionStorage := [(''app_a'', ''5''), (''app_b'', ''true''), (''app_c'', ''x''),
                              (''app_d'', ''{}''), (''app_e'', ''7'')]\<rparr>))))
   = [(''app_e'', ''1'')]"
  by (simp add: middleware_def save_def validate_states_def validate_namespace_def
        validate_debounce_def DEBOUNCE_DEFAULT_def save'_def save_state_def
        getStateForSessionStorage_def fresh_world_def setItem_def removeItem_def
        example_builtins_def integer_string_def index_string.simps)

section \<open>The debounce option (C3)\<close>

text \<open>
  C3, as it is stated: every \<open>debounce\<close> that is not a non-negative integer, a negative
  integer included, is reported and replaced by \<open>0\<close>, and the save is synchronous with no
  timer. The validation is \<open>isInteger\<close>, which \<open>-5\<close> passes: nothing is reported, the
  variable keeps \<open>-5\<close>, which counts as true, a timer is scheduled and nothing is saved
  yet.
\<close>

theorem debounce_negative_counterexample:
  "middleware example_builtins
     (save \<lparr>save_states = None, save_namespace = None,
            save_debounce = Some (JNum (Finite (- 5)))\<rparr>)
     (\<lambda>s. (s, None)) (fresh_world (JObj [])) =
   (\<lparr>states = JArr [], namespace = JStr NAMESPACE_DEFAULT, debounce = JNum (Finite (- 5))\<rparr>,
    (fresh_world (JObj []))
      \<lparr>debounceTimeout := Some 1,
       timers := [(1, JNum (Finite (- 5)), \<lparr>job_states = [], job_namespace = NAMESPACE_DEFAULT\<rparr>)],
       timer_count := 1\<rparr>,
    Inr None)"
  by (simp add: middleware_def save_def validate_states_def validate_namespace_def
        validate_debounce_def STATES_DEFAULT_def fresh_world_def setTimeout_def)

text \<open>
  C3, amended: for every \<open>debounce\<close> that is not an integer (a value that is not a number,
  \<open>NaN\<close>, an infinity, a number with a fractional part) the middleware reports it on the
  console after the checks of \<open>states\<close> and \<open>namespace\<close>, assigns the default \<open>0\<close> to the
  variable, and runs \<open>_save\<close> at once: no timer is scheduled, \<open>debounceTimeout\<close> is left
  as it was, and the middleware ends as \<open>_save\<close> does, with the value of \<open>next(action)\<close>
  when \<open>_save\<close> returns, which it does whenever the whole tree is saved.
\<close>

theorem debounce_not_integer:
  "\<not> isInteger (Some (debounce vars)) \<Longrightarrow>
     (let (s, returnValue) = next_action (state w);
          (sts, w2) = validate_states ''save'' (states vars) (w\<lparr>state := s\<rparr>);
          (ns, w3) = validate_namespace ''save'' (namespace vars) w2;
          w4 = console_error (parameter_message ''debounce'' ''save'' ''integer'') w3;
          (w5, e) = save' B (elements sts) (chars ns) w4
      in middleware B vars next_action w =
           (\<lparr>states = sts, namespace = ns, debounce = DEBOUNCE_DEFAULT\<rparr>, w5,
            case e of Some x \<Rightarrow> Inl x | None \<Rightarrow> Inr returnValue)
         \<and> timers w5 = timers w \<and> debounceTimeout w5 = debounceTimeout w
         \<and> console w5 =
             console w3 @ [(ConsoleError, MODULE_NAME, parameter_message ''debounce'' ''save'' ''integer'')]
         \<and> (elements sts = [] \<longrightarrow> e = None))"
proof -
  assume a: "\<not> isInteger (Some (debounce vars))"
  obtain s returnValue where n: "next_action (state w) = (s, returnValue)"
    by (cases "next_action (state w)")
  obtain sts w2 where v1: "validate_states ''save'' (states vars) (w\<lparr>state := s\<rparr>) = (sts, w2)"
    by (cases "validate_states ''save'' (states vars) (w\<lparr>state := s\<rparr>)")
  obtain ns w3 where v2: "validate_namespace ''save'' (namespace vars) w2 = (ns, w3)"
    by (cases "validate_namespace ''save'' (namespace vars) w2")
  define w4 where "w4 = console_error (parameter_message ''debounce'' ''save'' ''integer'') w3"
  obtain w5 e where sv: "save' B (elements sts) (chars ns) w4 = (w5, e)"
    by (cases "save' B (elements sts) (chars ns) w4")
  have v3: "validate_debounce ''save'' (debounce vars) w3 = (DEBOUNCE_DEFAULT, w4)"
    using a by (simp add: validate_debounce_def w4_def)
  have m: "middleware B vars next_action w =
           (\<lparr>states = sts, namespace = ns, debounce = DEBOUNCE_DEFAULT\<rparr>, w5,
            case e of Some x \<Rightarrow> Inl x | None \<Rightarrow> Inr returnValue)"
    by (cases e) (simp_all add: middleware_def n v1 v2 v3 sv DEBOUNCE_DEFAULT_def)
  have f4: "timers w4 = timers w \<and> debounceTimeout w4 = debounceTimeout w"
    using validate_states_fields [OF v1] validate_namespace_fields [OF v2]
    by (simp add: w4_def)
  have c4: "console w4 =
      console w3 @ [(ConsoleError, MODULE_NAME, parameter_message ''debounce'' ''save'' ''integer'')]"
    by (simp add: w4_def)
  have w: "elements sts = [] \<longrightarrow> e = None"
    using sv by (auto simp: save'_def)
  from m f4 c4 w save'_fields [OF sv] show ?thesis
    unfolding Let_def by (simp only: n v1 v2 w4_def [symmetric] sv prod.case)
qed

theorem debounce_not_integer_witness:
  "\<not> isInteger (Some (debounce (save \<lparr>save_states = None, save_namespace = None,
                                         save_debounce = Some (JStr ''500'')\<rparr>)))
   \<and> middleware example_builtins
       (save \<lparr>save_states = None, save_namespace = None, save_debounce = Some (JStr ''500'')\<rparr>)
       (\<lambda>s. (JObj [(''user'', JObj [(''name'', JStr ''a'')])], None)) (fresh_world (JObj [])) =
      (\<lparr>states = JArr [], namespace = JStr NAMESPACE_DEFAULT, debounce = JNum (Finite 0)\<rparr>,
       \<lparr>sessionStorage = [(NAMESPACE_DEFAULT, ''{'' @ quoted ''user'' @ '':{'' @ quoted ''name'' @ '':'' @ quoted ''a'' @ ''}}'')],
        console = [(ConsoleError, MODULE_NAME, parameter_message ''debounce'' ''save'' ''integer'')],
        state = JObj [(''user'', JObj [(''name'', JStr ''a'')])],
        debounceTimeout = None, timers = [], timer_count = 0\<rparr>,
       Inr None)"
proof -
  have h: "\<not> isInteger (Some (debounce (save \<lparr>save_states = None, save_namespace = None,
                                         save_debounce = Some (JStr ''500'')\<rparr>)))"
    by (simp add: save_def)
  show ?thesis
    using h debounce_not_integer [OF h, of "\<lambda>s. (JObj [(''user'', JObj [(''name'', JStr ''a'')])], None)"
        "fresh_world (JObj [])" example_builtins]
    by (simp add: save_def validate_states_def validate_namespace_def STATES_DEFAULT_def
          DEBOUNCE_DEFAULT_def save'_def fresh_world_def setItem_def console_error_def
          example_builtins_def)
qed

section \<open>combineLoads (C8)\<close>



lemma own_set_prototype [simp]: "own (set_prototype obj v) = own obj"
  by (cases v) simp_all











text \<open>Two more runs of the loop: array indices enumerate before the other keys, and once
  the prototype is \<open>null\<close> the key \<open>__proto__\<close> is a key like any other.\<close>

lemma combineLoads_index_order:
  "snd (combineLoads
     [Some (JObj [(''b'', JNum (Finite 1)), (''10'', JNull)]), Some (JObj [(''2'', JNum (Finite 1)), (''01'', JNull)])] (fresh_world JNull))
     = \<lparr>own = [(''2'', JNum (Finite 1)), (''10'', JNull), (''b'', JNum (Finite 1)), (''01'', JNull)], proto = ObjectPrototype\<rparr>"
  by (simp add: combineLoads_def combine_load_def set_prop_def define_prop_def array_index_def index_string.simps)

lemma combineLoads_null_prototype:
  "snd (combineLoads
     [Some (JObj [(''__proto__'', JNull)]), Some (JObj [(''__proto__'', JNum (Finite 1))])] (fresh_world JNull))
     = \<lparr>own = [(''__proto__'', JNum (Finite 1))], proto = NullPrototype\<rparr>"
  by (simp add: combineLoads_def combine_load_def set_prop_def define_prop_def array_index_def index_string.simps)


section \<open>The single slot of the debounce timer (C9)\<close>

lemma combine_load_fields:
  "combine_load ld (w, acc) = (w', acc') \<Longrightarrow>
     timers w' = timers w \<and> debounceTimeout w' = debounceTimeout w"
  by (auto simp: combine_load_def console_error_def split: if_splits option.splits)

lemma combine_fold_fields:
  "foldl (\<lambda>wc ld. combine_load ld wc) (w, acc) loads = (w', acc') \<Longrightarrow>
     timers w' = timers w \<and> debounceTimeout w' = debounceTimeout w"
proof (induction loads arbitrary: w acc)
  case Nil
  then show ?case by simp
next
  case (Cons ld loads)
  obtain w1 a1 where c: "combine_load ld (w, acc) = (w1, a1)"
    by (cases "combine_load ld (w, acc)")
  with Cons.prems have "foldl (\<lambda>wc ld. combine_load ld wc) (w1, a1) loads = (w', acc')"
    by simp
  from Cons.IH [OF this] combine_load_fields [OF c] show ?case by simp
qed

lemma combineLoads_fields:
  "timers (fst (combineLoads loads w)) = timers w
   \<and> debounceTimeout (fst (combineLoads loads w)) = debounceTimeout w"
proof -
  obtain w' acc' where f: "foldl (\<lambda>wc ld. combine_load ld wc)
      (w, \<lparr>own = [], proto = ObjectPrototype\<rparr>) loads = (w', acc')"
    by (cases "foldl (\<lambda>wc ld. combine_load ld wc) (w, \<lparr>own = [], proto = ObjectPrototype\<rparr>) loads")
  from combine_fold_fields [OF f] f show ?thesis
    by (simp add: combineLoads_def)
qed

lemma clear_fields:
  "timers (clear config w) = timers w \<and> debounceTimeout (clear config w) = debounceTimeout w"
proof -
  obtain ns w1 where v: "validate_namespace ''clear''
      (case clear_namespace config of None \<Rightarrow> JStr NAMESPACE_DEFAULT | Some v \<Rightarrow> v) w = (ns, w1)"
    by (cases "validate_namespace ''clear''
      (case clear_namespace config of None \<Rightarrow> JStr NAMESPACE_DEFAULT | Some v \<Rightarrow> v) w")
  from validate_namespace_fields [OF v] show ?thesis
    by (simp add: clear_def v foldl_removeItem)
qed

lemma single_slot_fields:
  "single_slot w \<Longrightarrow> timers w' = timers w \<and> debounceTimeout w' = debounceTimeout w \<Longrightarrow>
     single_slot w'"
  by (simp add: single_slot_def split: list.splits prod.splits)

lemma single_slot_cleared:
  "single_slot w \<Longrightarrow>
     timers (case debounceTimeout w of None \<Rightarrow> w
             | Some h \<Rightarrow> if h \<noteq> 0 then clearTimeout h w else w) = []"
  by (auto simp: single_slot_def clearTimeout_def
        split: list.splits option.splits prod.splits if_splits)

lemma middleware_debounced:
  assumes slot: "single_slot w"
    and int: "isInteger (Some (debounce vars))"
    and tr: "truthy (Some (debounce vars))"
    and mw: "middleware B vars next_action w = (vars', w', r)"
  shows "timers w' =
           [(Suc (timer_count w), debounce vars,
             \<lparr>job_states = elements (states vars'), job_namespace = chars (namespace vars')\<rparr>)]
         \<and> debounceTimeout w' = Some (Suc (timer_count w))
         \<and> sessionStorage w' = sessionStorage w
         \<and> r = Inr (snd (next_action (state w)))"
proof -
  obtain s returnValue where n: "next_action (state w) = (s, returnValue)"
    by (cases "next_action (state w)")
  obtain sts w2 where v1: "validate_states ''save'' (states vars) (w\<lparr>state := s\<rparr>) = (sts, w2)"
    by (cases "validate_states ''save'' (states vars) (w\<lparr>state := s\<rparr>)")
  obtain ns w3 where v2: "validate_namespace ''save'' (namespace vars) w2 = (ns, w3)"
    by (cases "validate_namespace ''save'' (namespace vars) w2")
  have v3: "validate_debounce ''save'' (debounce vars) w3 = (debounce vars, w3)"
    using int by (simp add: validate_debounce_def)
  have f3: "timers w3 = timers w \<and> debounceTimeout w3 = debounceTimeout w
      \<and> sessionStorage w3 = sessionStorage w"
    using validate_states_fields [OF v1] validate_namespace_fields [OF v2] by simp
  have c3: "timer_count w3 = timer_count w"
    using v1 v2
    by (auto simp: validate_states_def validate_namespace_def console_error_def split: if_splits)
  define w5 where "w5 = (case debounceTimeout w3 of None \<Rightarrow> w3
             | Some h \<Rightarrow> if h \<noteq> 0 then clearTimeout h w3 else w3)"
  have "single_slot w3" using f3 by (intro single_slot_fields [OF slot]) simp
  then have t5: "timers w5 = []" unfolding w5_def by (rule single_slot_cleared)
  have f5: "timer_count w5 = timer_count w \<and> sessionStorage w5 = sessionStorage w"
    using f3 c3 by (auto simp: w5_def clearTimeout_def split: option.splits)
  have "middleware B vars next_action w =
      (\<lparr>states = sts, namespace = ns, debounce = debounce vars\<rparr>,
       (snd (setTimeout \<lparr>job_states = elements sts, job_namespace = chars ns\<rparr> (debounce vars) w5))
         \<lparr>debounceTimeout := Some (fst (setTimeout \<lparr>job_states = elements sts, job_namespace = chars ns\<rparr> (debounce vars) w5))\<rparr>,
       Inr returnValue)"
    using tr by (simp add: middleware_def n v1 v2 v3 w5_def setTimeout_def Let_def)
  with mw t5 f5 n show ?thesis
    by (auto simp: setTimeout_def Let_def)
qed

lemma middleware_single_slot:
  assumes slot: "single_slot w"
  shows "single_slot (fst (snd (middleware B vars next_action w)))"
proof -
  obtain s returnValue where n: "next_action (state w) = (s, returnValue)"
    by (cases "next_action (state w)")
  obtain sts w2 where v1: "validate_states ''save'' (states vars) (w\<lparr>state := s\<rparr>) = (sts, w2)"
    by (cases "validate_states ''save'' (states vars) (w\<lparr>state := s\<rparr>)")
  obtain ns w3 where v2: "validate_namespace ''save'' (namespace vars) w2 = (ns, w3)"
    by (cases "validate_namespace ''save'' (namespace vars) w2")
  obtain db w4 where v3: "validate_debounce ''save'' (debounce vars) w3 = (db, w4)"
    by (cases "validate_debounce ''save'' (debounce vars) w3")
  have f4: "timers w4 = timers w \<and> debounceTimeout w4 = debounceTimeout w"
    using validate_states_fields [OF v1] validate_namespace_fields [OF v2]
      validate_debounce_fields [OF v3] by simp
  have s4: "single_slot w4" by (rule single_slot_fields [OF slot f4])
  show ?thesis
  proof (cases "truthy (Some db)")
    case True
    define w5 where "w5 = (case debounceTimeout w4 of None \<Rightarrow> w4
             | Some h \<Rightarrow> if h \<noteq> 0 then clearTimeout h w4 else w4)"
    have t5: "timers w5 = []" unfolding w5_def using s4 by (rule single_slot_cleared)
    have "fst (snd (middleware B vars next_action w)) =
       (snd (setTimeout \<lparr>job_states = elements sts, job_namespace = chars ns\<rparr> db w5))
         \<lparr>debounceTimeout := Some (fst (setTimeout \<lparr>job_states = elements sts, job_namespace = chars ns\<rparr> db w5))\<rparr>"
      using True by (simp add: middleware_def n v1 v2 v3 w5_def Let_def split: prod.splits)
    with t5 show ?thesis
      by (simp add: setTimeout_def Let_def single_slot_def)
  next
    case False
    obtain w5 e where sv: "save' B (elements sts) (chars ns) w4 = (w5, e)"
      by (cases "save' B (elements sts) (chars ns) w4")
    have "fst (snd (middleware B vars next_action w)) = w5"
      using False by (cases e) (simp_all add: middleware_def n v1 v2 v3 sv)
    with save'_fields [OF sv] f4 show ?thesis
      by (intro single_slot_fields [OF slot]) simp
  qed
qed

lemma fire_single:
  "timers w = [(h, delay, j)] \<Longrightarrow>
     fire B h w = save' B (job_states j) (job_namespace j) (w\<lparr>timers := []\<rparr>)"
  by (simp add: fire_def)

lemma fire_single_slot:
  assumes slot: "single_slot w"
  shows "single_slot (fst (fire B h w))"
proof (cases "map_of (timers w) h")
  case None
  with slot show ?thesis by (simp add: fire_def)
next
  case (Some dj)
  obtain delay j where dj: "dj = (delay, j)" by (cases dj)
  from slot Some have t: "timers w = [(h, delay, j)]"
    by (auto simp: single_slot_def dj split: list.splits prod.splits if_splits)
  obtain w' e where sv: "save' B (job_states j) (job_namespace j) (w\<lparr>timers := []\<rparr>) = (w', e)"
    by (cases "save' B (job_states j) (job_namespace j) (w\<lparr>timers := []\<rparr>)")
  from save'_fields [OF sv] show ?thesis
    by (simp add: fire_single [OF t] sv single_slot_def)
qed

lemma step_single_slot: "single_slot w \<Longrightarrow> single_slot (step B w ev)"
proof (cases ev)
  case (Dispatch vars next_action)
  assume "single_slot w"
  with Dispatch show ?thesis by (simp add: middleware_single_slot)
next
  case (Fire h)
  assume "single_slot w"
  with Fire show ?thesis by (simp add: fire_single_slot)
next
  case (Load config)
  assume s: "single_slot w"
  obtain w' r where l: "load B config w = (w', r)" by (cases "load B config w")
  from load_fields [OF l] Load l show ?thesis by (intro single_slot_fields [OF s]) simp
next
  case (CombineLoads loads)
  assume s: "single_slot w"
  from CombineLoads combineLoads_fields [of loads w] show ?thesis
    by (intro single_slot_fields [OF s]) simp
next
  case (Clear config)
  assume s: "single_slot w"
  from Clear clear_fields [of config w] show ?thesis
    by (intro single_slot_fields [OF s]) simp
qed

lemma run_single_slot: "single_slot w \<Longrightarrow> single_slot (run B w evs)"
  unfolding run_def by (induction evs arbitrary: w) (simp_all add: step_single_slot)

lemma module_loaded_single_slot: "module_loaded w \<Longrightarrow> single_slot w"
  by (simp add: module_loaded_def single_slot_def)

text \<open>
  C9. In every world \<open>w\<close> that a run of the program reaches from the loaded module:
  at most one timer is pending, and \<open>debounceTimeout\<close> holds its handle; a debounced
  action (an integer \<open>debounce\<close> that is not \<open>0\<close>) leaves exactly one pending timer, its
  own, whatever was pending before, and writes nothing to the store; and when the
  pending timer fires, \<open>_save\<close> runs once, on the state the store has at that moment, and
  no timer is left. So of the debounced actions that arrive before the pending timer
  has fired, only the last one's save is run.
\<close>

theorem debounce_single_slot:
  "module_loaded w0 \<Longrightarrow> w = run B w0 evs \<Longrightarrow>
     single_slot w
     \<and> (isInteger (Some (debounce vars)) \<and> truthy (Some (debounce vars)) \<longrightarrow>
          (case middleware B vars next_action w of
             (vars', w', r) \<Rightarrow>
               timers w' =
                 [(Suc (timer_count w), debounce vars,
                   \<lparr>job_states = elements (states vars'),
                    job_namespace = chars (namespace vars')\<rparr>)]
               \<and> debounceTimeout w' = Some (Suc (timer_count w))
               \<and> sessionStorage w' = sessionStorage w
               \<and> r = Inr (snd (next_action (state w)))))
     \<and> (timers w = [(h, delay, j)] \<longrightarrow>
          fire B h w = save' B (job_states j) (job_namespace j) (w\<lparr>timers := []\<rparr>)
          \<and> timers (fst (fire B h w)) = []
          \<and> (job_states j = [] \<longrightarrow>
               sessionStorage (fst (fire B h w)) =
                 AList.update (job_namespace j) (JSON_stringify B (state w)) (sessionStorage w)))"
proof -
  assume l: "module_loaded w0" and w: "w = run B w0 evs"
  have slot: "single_slot w"
    unfolding w by (rule run_single_slot [OF module_loaded_single_slot [OF l]])
  have deb: "isInteger (Some (debounce vars)) \<and> truthy (Some (debounce vars)) \<longrightarrow>
          (case middleware B vars next_action w of
             (vars', w', r) \<Rightarrow>
               timers w' =
                 [(Suc (timer_count w), debounce vars,
                   \<lparr>job_states = elements (states vars'),
                    job_namespace = chars (namespace vars')\<rparr>)]
               \<and> debounceTimeout w' = Some (Suc (timer_count w))
               \<and> sessionStorage w' = sessionStorage w
               \<and> r = Inr (snd (next_action (state w))))"
  proof
    assume a: "isInteger (Some (debounce vars)) \<and> truthy (Some (debounce vars))"
    obtain vars' w' r where m: "middleware B vars next_action w = (vars', w', r)"
      by (cases "middleware B vars next_action w")
    from middleware_debounced [OF slot _ _ m] a show "case middleware B vars next_action w of
             (vars', w', r) \<Rightarrow>
               timers w' =
                 [(Suc (timer_count w), debounce vars,
                   \<lparr>job_states = elements (states vars'),
                    job_namespace = chars (namespace vars')\<rparr>)]
               \<and> debounceTimeout w' = Some (Suc (timer_count w))
               \<and> sessionStorage w' = sessionStorage w
               \<and> r = Inr (snd (next_action (state w)))"
      by (simp add: m)
  qed
  have fr: "timers w = [(h, delay, j)] \<longrightarrow>
          fire B h w = save' B (job_states j) (job_namespace j) (w\<lparr>timers := []\<rparr>)
          \<and> timers (fst (fire B h w)) = []
          \<and> (job_states j = [] \<longrightarrow>
               sessionStorage (fst (fire B h w)) =
                 AList.update (job_namespace j) (JSON_stringify B (state w)) (sessionStorage w))"
  proof
    assume t: "timers w = [(h, delay, j)]"
    obtain w' e where sv: "save' B (job_states j) (job_namespace j) (w\<lparr>timers := []\<rparr>) = (w', e)"
      by (cases "save' B (job_states j) (job_namespace j) (w\<lparr>timers := []\<rparr>)")
    from save'_fields [OF sv] have t': "timers w' = []" by simp
    have whole: "job_states j = [] \<longrightarrow> sessionStorage (fst (fire B h w)) =
        AList.update (job_namespace j) (JSON_stringify B (state w)) (sessionStorage w)"
    proof
      assume "job_states j = []"
      then show "sessionStorage (fst (fire B h w)) =
        AList.update (job_namespace j) (JSON_stringify B (state w)) (sessionStorage w)"
        by (simp add: fire_single [OF t] save'_whole_tree setItem_def)
    qed
    have f: "fire B h w = save' B (job_states j) (job_namespace j) (w\<lparr>timers := []\<rparr>)"
      by (rule fire_single [OF t])
    have "timers (fst (fire B h w)) = []"
      using t' by (simp only: f sv fst_conv)
    with f whole
    show "fire B h w = save' B (job_states j) (job_namespace j) (w\<lparr>timers := []\<rparr>)
          \<and> timers (fst (fire B h w)) = []
          \<and> (job_states j = [] \<longrightarrow>
               sessionStorage (fst (fire B h w)) =
                 AList.update (job_namespace j) (JSON_stringify B (state w)) (sessionStorage w))"
      by (intro conjI)
  qed
  show ?thesis by (rule conjI [OF slot conjI [OF deb fr]])
qed


theorem debounce_single_slot_witness:
  "module_loaded (fresh_world (JNum (Finite 0)))
   \<and> isInteger (Some (debounce (save \<lparr>save_states = None, save_namespace = None,
                                        save_debounce = Some (JNum (Finite 500))\<rparr>)))
   \<and> truthy (Some (debounce (save \<lparr>save_states = None, save_namespace = None,
                                     save_debounce = Some (JNum (Finite 500))\<rparr>)))
   \<and> single_slot (run example_builtins (fresh_world (JNum (Finite 0)))
        [Dispatch (save \<lparr>save_states = None, save_namespace = None,
                          save_debounce = Some (JNum (Finite 500))\<rparr>)
           (\<lambda>s. (JNum (Finite 1), None))])
   \<and> timers (run example_builtins (fresh_world (JNum (Finite 0)))
        [Dispatch (save \<lparr>save_states = None, save_namespace = None,
                          save_debounce = Some (JNum (Finite 500))\<rparr>)
           (\<lambda>s. (JNum (Finite 1), None))]) =
       [(1, JNum (Finite 500), \<lparr>job_states = [], job_namespace = NAMESPACE_DEFAULT\<rparr>)]
   \<and> timers (run example_builtins (fresh_world (JNum (Finite 0)))
        [Dispatch (save \<lparr>save_states = None, save_namespace = None,
                          save_debounce = Some (JNum (Finite 500))\<rparr>)
           (\<lambda>s. (JNum (Finite 1), None)),
         Dispatch (save \<lparr>save_states = None, save_namespace = None,
                          save_debounce = Some (JNum (Finite 500))\<rparr>)
           (\<lambda>s. (JNum (Finite 2), None))]) =
       [(2, JNum (Finite 500), \<lparr>job_states = [], job_namespace = NAMESPACE_DEFAULT\<rparr>)]
   \<and> run example_builtins (fresh_world (JNum (Finite 0)))
        [Dispatch (save \<lparr>save_states = None, save_namespace = None,
                          save_debounce = Some (JNum (Finite 500))\<rparr>)
           (\<lambda>s. (JNum (Finite 1), None)),
         Dispatch (save \<lparr>save_states = None, save_namespace = None,
                          save_debounce = Some (JNum (Finite 500))\<rparr>)
           (\<lambda>s. (JNum (Finite 2), None)),
         Fire 2] =
       \<lparr>sessionStorage = [(NAMESPACE_DEFAULT, ''2'')], console = [],
        state = JNum (Finite 2), debounceTimeout = Some 2, timers = [], timer_count = 2\<rparr>"
proof -
  let ?v = "save \<lparr>save_states = None, save_namespace = None,
                  save_debounce = Some (JNum (Finite 500))\<rparr>"
  let ?w0 = "fresh_world (JNum (Finite 0))"
  let ?j = "\<lparr>job_states = [], job_namespace = NAMESPACE_DEFAULT\<rparr>"
  have l: "module_loaded ?w0"
    by (simp add: module_loaded_def fresh_world_def)
  have w1: "run example_builtins ?w0 [Dispatch ?v (\<lambda>s. (JNum (Finite 1), None))] =
      \<lparr>sessionStorage = [], console = [], state = JNum (Finite 1), debounceTimeout = Some 1,
       timers = [(1, JNum (Finite 500), ?j)], timer_count = 1\<rparr>"
    by (simp add: run_def middleware_def save_def validate_states_def validate_namespace_def
          validate_debounce_def STATES_DEFAULT_def fresh_world_def setTimeout_def)
  have i: "isInteger (Some (debounce ?v)) \<and> truthy (Some (debounce ?v))"
    by (simp add: save_def)
  note t = debounce_single_slot [OF l refl, of example_builtins
      "[Dispatch ?v (\<lambda>s. (JNum (Finite 1), None))]" ?v "\<lambda>s. (JNum (Finite 2), None)"
      1 "JNum (Finite 500)" ?j]
  have w2: "run example_builtins ?w0
      [Dispatch ?v (\<lambda>s. (JNum (Finite 1), None)), Dispatch ?v (\<lambda>s. (JNum (Finite 2), None))] =
      \<lparr>sessionStorage = [], console = [], state = JNum (Finite 2), debounceTimeout = Some 2,
       timers = [(2, JNum (Finite 500), ?j)], timer_count = 2\<rparr>"
    by (simp add: run_def middleware_def save_def validate_states_def validate_namespace_def
          validate_debounce_def STATES_DEFAULT_def fresh_world_def setTimeout_def
          clearTimeout_def)
  have w3: "run example_builtins ?w0
      [Dispatch ?v (\<lambda>s. (JNum (Finite 1), None)), Dispatch ?v (\<lambda>s. (JNum (Finite 2), None)),
       Fire 2] =
      \<lparr>sessionStorage = [(NAMESPACE_DEFAULT, ''2'')], console = [],
        state = JNum (Finite 2), debounceTimeout = Some 2, timers = [], timer_count = 2\<rparr>"
    by (simp add: run_def middleware_def save_def validate_states_def validate_namespace_def
          validate_debounce_def STATES_DEFAULT_def fresh_world_def setTimeout_def
          clearTimeout_def fire_def save'_def setItem_def example_builtins_def
          integer_string_def index_string.simps)
  from t have "single_slot (run example_builtins ?w0 [Dispatch ?v (\<lambda>s. (JNum (Finite 1), None))])"
    by simp
  with l i w1 w2 w3 show ?thesis by simp
qed

end
